theory Spec2Isabelle
  imports Main "HOL-Library.Sublist"
begin

section \<open>JavaScript values the model needs\<close>

text \<open>
  A thrown JavaScript value, as far as the program inspects it: the text of its
  \<^verbatim>\<open>message\<close> property (empty when the property is absent or falsy) and the
  text \<^verbatim>\<open>String(err)\<close> gives.
\<close>

datatype thrown = Thrown (err_message: string) (err_string: string)

text \<open>\<^verbatim>\<open>new Error(m)\<close>: \<^verbatim>\<open>String\<close> of it is the name alone when the message is empty.\<close>

definition Error :: "string \<Rightarrow> thrown" where
  "Error m = Thrown m (if m = [] then ''Error'' else ''Error: '' @ m)"

text \<open>The error better-sqlite3 throws when a statement violates a constraint.\<close>

definition SqliteError :: "string \<Rightarrow> thrown" where
  "SqliteError m = Thrown m (''SqliteError: '' @ m)"

text \<open>\<^verbatim>\<open>String(err?.message || err)\<close>, also the text of the template \<^verbatim>\<open>${err?.message || err}\<close>.\<close>

definition error_text :: "thrown \<Rightarrow> string" where
  "error_text err = (if err_message err \<noteq> [] then err_message err else err_string err)"

text \<open>\<^verbatim>\<open>x || null\<close> on a string that may be absent: the empty string is falsy.\<close>

definition or_null :: "string option \<Rightarrow> string option" where
  "or_null x = (case x of None \<Rightarrow> None | Some s \<Rightarrow> if s = [] then None else Some s)"

text \<open>\<^verbatim>\<open>x || null\<close> on a number that may be absent: zero is falsy.\<close>

definition or_null_num :: "int option \<Rightarrow> int option" where
  "or_null_num x = (case x of None \<Rightarrow> None | Some n \<Rightarrow> if n = 0 then None else Some n)"

text \<open>\<^verbatim>\<open>x || d\<close> with a string default.\<close>

definition or_default :: "string option \<Rightarrow> string \<Rightarrow> string" where
  "or_default x d = (case x of None \<Rightarrow> d | Some s \<Rightarrow> if s = [] then d else s)"

text \<open>SQL \<^verbatim>\<open>COALESCE(a, b)\<close>: the first argument unless it is NULL.\<close>

definition COALESCE :: "'a option \<Rightarrow> 'a option \<Rightarrow> 'a option" where
  "COALESCE a b = (case a of None \<Rightarrow> b | Some v \<Rightarrow> Some v)"

section \<open>The storage layer (db.js)\<close>

text \<open>
  The three tables of the schema, each a list of rows in insertion order. A nullable
  column is an \<open>option\<close>. User identities are the text \<^verbatim>\<open>String(telegramUserId)\<close>
  the statements bind.
\<close>

record oauth_token =
  tok_telegram_user_id :: string
  tok_access_token :: "string option"
  tok_refresh_token :: "string option"
  tok_scope :: "string option"
  tok_token_type :: "string option"
  tok_expiry_date :: "int option"

record oauth_state =
  st_state :: string
  st_telegram_user_id :: string
  st_created_at :: int

record job =
  job_id :: string
  job_telegram_user_id :: string
  job_source_url :: string
  job_status :: string
  job_created_at :: int
  job_updated_at :: int
  job_video_id :: "string option"
  job_error :: "string option"

record database =
  oauth_tokens :: "oauth_token list"
  oauth_states :: "oauth_state list"
  jobs :: "job list"

text \<open>
  The token set an authorization server hands back. A field is \<open>None\<close> when it is
  null; the refresh token, scope, token type and expiry may also be missing altogether,
  which the \<^verbatim>\<open>|| null\<close> of the code turns into null.
\<close>

record token_set =
  access_token :: "string option"
  refresh_token :: "string option"
  scope :: "string option"
  token_type :: "string option"
  expiry_date :: "int option"

text \<open>The third argument of \<^verbatim>\<open>updateJobStatus\<close>; a missing field defaults to null.\<close>

record extra =
  video_id :: "string option"
  error :: "string option"

definition no_extra :: extra where
  "no_extra = \<lparr>video_id = None, error = None\<rparr>"

subsection \<open>Credential store\<close>

definition getToken :: "database \<Rightarrow> string \<Rightarrow> oauth_token option" where
  "getToken d telegramUserId =
     find (\<lambda>r. tok_telegram_user_id r = telegramUserId) (oauth_tokens d)"

text \<open>The \<^verbatim>\<open>DO UPDATE SET\<close> clause, applied to the stored row that conflicts.\<close>

definition merge_token :: "oauth_token \<Rightarrow> oauth_token \<Rightarrow> oauth_token" where
  "merge_token excluded old =
     old\<lparr>tok_access_token := tok_access_token excluded,
         tok_refresh_token := COALESCE (tok_refresh_token excluded) (tok_refresh_token old),
         tok_scope := tok_scope excluded,
         tok_token_type := tok_token_type excluded,
         tok_expiry_date := tok_expiry_date excluded\<rparr>"

text \<open>The row the statement proposes for insertion, from the bound parameters.\<close>

definition excluded_row :: "string \<Rightarrow> token_set \<Rightarrow> oauth_token" where
  "excluded_row telegramUserId token =
     \<lparr>tok_telegram_user_id = telegramUserId,
      tok_access_token = access_token token,
      tok_refresh_token = or_null (refresh_token token),
      tok_scope = or_null (scope token),
      tok_token_type = Some (or_default (token_type token) ''Bearer''),
      tok_expiry_date = or_null_num (expiry_date token)\<rparr>"

definition upsertToken :: "database \<Rightarrow> string \<Rightarrow> token_set \<Rightarrow> database" where
  "upsertToken d telegramUserId token =
     (case getToken d telegramUserId of
        None \<Rightarrow> d\<lparr>oauth_tokens := oauth_tokens d @ [excluded_row telegramUserId token]\<rparr>
      | Some _ \<Rightarrow>
          d\<lparr>oauth_tokens :=
              map (\<lambda>r. if tok_telegram_user_id r = telegramUserId
                        then merge_token (excluded_row telegramUserId token) r else r)
                (oauth_tokens d)\<rparr>)"

definition deleteToken :: "database \<Rightarrow> string \<Rightarrow> database" where
  "deleteToken d telegramUserId =
     d\<lparr>oauth_tokens := filter (\<lambda>r. tok_telegram_user_id r \<noteq> telegramUserId) (oauth_tokens d)\<rparr>"

subsection \<open>Pending authorizations\<close>

text \<open>The insert violates the primary key when the state token is already stored.\<close>

definition createState :: "database \<Rightarrow> int \<Rightarrow> string \<Rightarrow> string \<Rightarrow> thrown + database" where
  "createState d now telegramUserId state =
     (case find (\<lambda>r. st_state r = state) (oauth_states d) of
        Some _ \<Rightarrow> Inl (SqliteError ''UNIQUE constraint failed: oauth_states.state'')
      | None \<Rightarrow>
          Inr (d\<lparr>oauth_states := oauth_states d @
                 [\<lparr>st_state = state, st_telegram_user_id = telegramUserId,
                   st_created_at = now\<rparr>]\<rparr>))"

definition consumeState :: "database \<Rightarrow> string \<Rightarrow> oauth_state option \<times> database" where
  "consumeState d state =
     (let row = find (\<lambda>r. st_state r = state) (oauth_states d)
      in case row of
           Some _ \<Rightarrow> (row, d\<lparr>oauth_states := filter (\<lambda>r. st_state r \<noteq> state) (oauth_states d)\<rparr>)
         | None \<Rightarrow> (row, d))"

subsection \<open>Job ledger\<close>

definition getJob :: "database \<Rightarrow> string \<Rightarrow> job option" where
  "getJob d jid = find (\<lambda>r. job_id r = jid) (jobs d)"

text \<open>
  The caller's job object carries \<^verbatim>\<open>id\<close>, \<^verbatim>\<open>telegram_user_id\<close>, \<^verbatim>\<open>source_url\<close> and
  \<^verbatim>\<open>status\<close>; the two nullable columns are not in the insert and start as NULL.
\<close>

definition createJob ::
  "database \<Rightarrow> int \<Rightarrow> string \<Rightarrow> string \<Rightarrow> string \<Rightarrow> string \<Rightarrow> thrown + database" where
  "createJob d now jid telegram_user_id source_url status =
     (case getJob d jid of
        Some _ \<Rightarrow> Inl (SqliteError ''UNIQUE constraint failed: jobs.id'')
      | None \<Rightarrow>
          Inr (d\<lparr>jobs := jobs d @
                 [\<lparr>job_id = jid, job_telegram_user_id = telegram_user_id,
                   job_source_url = source_url, job_status = status,
                   job_created_at = now, job_updated_at = now,
                   job_video_id = None, job_error = None\<rparr>]\<rparr>))"

text \<open>The \<^verbatim>\<open>SET\<close> clause of the update, applied to one row.\<close>

definition set_status :: "int \<Rightarrow> string \<Rightarrow> extra \<Rightarrow> job \<Rightarrow> job" where
  "set_status now status ex r =
     r\<lparr>job_status := status, job_updated_at := now,
       job_video_id := COALESCE (video_id ex) (job_video_id r),
       job_error := error ex\<rparr>"

definition updateJobStatus :: "database \<Rightarrow> int \<Rightarrow> string \<Rightarrow> string \<Rightarrow> extra \<Rightarrow> database" where
  "updateJobStatus d now jid status ex =
     d\<lparr>jobs := map (\<lambda>r. if job_id r = jid then set_status now status ex r else r) (jobs d)\<rparr>"

section \<open>The authorization collaborator (oauth/google.js)\<close>

record oauth2_client =
  client_id :: string
  client_secret :: string
  redirect_uri :: string
  credentials :: token_set

definition buildOAuthRedirectUrl :: "string \<Rightarrow> string" where
  "buildOAuthRedirectUrl base = base @ ''/oauth2/callback''"

text \<open>
  The client identity and secret come from the process configuration, taken here as
  parameters. \<open>client_with\<close> is the client after \<^verbatim>\<open>setCredentials\<close> with the fields
  of the stored record. No credential record for the owner gives null, here \<open>None\<close>.
\<close>

definition client_with :: "string \<Rightarrow> string \<Rightarrow> string \<Rightarrow> oauth_token \<Rightarrow> oauth2_client" where
  "client_with GOOGLE_CLIENT_ID GOOGLE_CLIENT_SECRET redirectUri token =
     \<lparr>client_id = GOOGLE_CLIENT_ID, client_secret = GOOGLE_CLIENT_SECRET,
      redirect_uri = redirectUri,
      credentials =
        \<lparr>access_token = tok_access_token token,
         refresh_token = tok_refresh_token token,
         scope = tok_scope token,
         token_type = tok_token_type token,
         expiry_date = tok_expiry_date token\<rparr>\<rparr>"

definition getAuthorizedClient ::
  "string \<Rightarrow> string \<Rightarrow> database \<Rightarrow> string \<Rightarrow> string \<Rightarrow> oauth2_client option" where
  "getAuthorizedClient GOOGLE_CLIENT_ID GOOGLE_CLIENT_SECRET d telegramUserId baseUrl =
     (let redirectUri = buildOAuthRedirectUrl baseUrl
      in case getToken d telegramUserId of
           None \<Rightarrow> None
         | Some token \<Rightarrow>
             Some (client_with GOOGLE_CLIENT_ID GOOGLE_CLIENT_SECRET redirectUri token))"

section \<open>The job runner (workflow/runner.js)\<close>

text \<open>
  The external collaborators wrap tools and network services, so the runner takes them
  as parameters. The four media stages return a path or throw. The upload returns the
  \<^verbatim>\<open>id\<close> field of the platform's answer unchecked, so it returns an identifier, or
  nothing (\<open>None\<close>: the field is undefined or null), or throws. The clock, the joining
  of paths and the creation of the working directory are parameters as well:
  \<open>dateNow env n\<close> is what the \<open>n\<close>-th reading of \<^verbatim>\<open>Date.now()\<close> gives, and
  \<open>mkdirSync env dir\<close> is \<open>None\<close> when the directory could be created.

  While the run awaits a collaborator, the server handles other requests. No other
  handler writes this job's row (only the job's own run has its identifier), but the
  linking flow writes the two OAuth tables. \<open>concurrent env n\<close> is what the other
  requests did to the database between the \<open>n\<close>-th ledger write and the return of the
  collaborator called after it; only its effect on the two OAuth tables is taken.
\<close>

datatype collaborator =
  DownloadVideo | TrimAndFormat | ExtractAudio | TranscribeToSrt | UploadVideoWithCaptions

record upload_request =
  oauth2Client :: oauth2_client
  videoPath :: string
  srtPath :: string
  title :: string
  description :: string
  tags :: "string list"

record env =
  JOBS_DIR :: string
  GOOGLE_CLIENT_ID :: string
  GOOGLE_CLIENT_SECRET :: string
  dateNow :: "nat \<Rightarrow> int"
  path_join :: "string \<Rightarrow> string \<Rightarrow> string"
  mkdirSync :: "string \<Rightarrow> thrown option"
  concurrent :: "nat \<Rightarrow> database \<Rightarrow> database"
  downloadVideo :: "string \<Rightarrow> string \<Rightarrow> thrown + string"
  trimAndFormat :: "string \<Rightarrow> string \<Rightarrow> thrown + string"
  extractAudio :: "string \<Rightarrow> string \<Rightarrow> thrown + string"
  transcribeToSrt :: "string \<Rightarrow> thrown + string"
  uploadVideoWithCaptions :: "upload_request \<Rightarrow> thrown + string option"

text \<open>
  The observer: absent (\<^verbatim>\<open>if (notify)\<close> fails), or a callback that, given the
  message, returns normally (\<open>None\<close>) or throws. Within one run every message is
  sent at most once, so a callback with memory is covered too.
\<close>

type_synonym observer = "(string \<Rightarrow> thrown option) option"

text \<open>
  What the run does to the outside, in order: a write to the job ledger (the status
  written and the job's row as a reader polling right after the write gets it), a call
  of the observer with its message, a call of a collaborator with its outcome (what it
  threw, or what it returned), and the read of the owner's credential record at the
  authorization check.
\<close>

datatype event =
  Ledger string "job option"
  | Notified string
  | Called collaborator "thrown + string option"
  | CredentialRead "oauth_token option"

record world =
  db :: database
  ticks :: nat
  trace :: "event list"

definition start_world :: "database \<Rightarrow> world" where
  "start_world d = \<lparr>db = d, ticks = 0, trace = []\<rparr>"

definition do_createJob ::
  "env \<Rightarrow> string \<Rightarrow> string \<Rightarrow> string \<Rightarrow> string \<Rightarrow> world \<Rightarrow> (thrown + unit) \<times> world" where
  "do_createJob env jid telegram_user_id source_url status w =
     (case createJob (db w) (dateNow env (ticks w)) jid telegram_user_id source_url status of
        Inl e \<Rightarrow> (Inl e, w\<lparr>ticks := Suc (ticks w)\<rparr>)
      | Inr d \<Rightarrow>
          (Inr (), w\<lparr>db := d, ticks := Suc (ticks w),
                     trace := trace w @ [Ledger status (getJob d jid)]\<rparr>))"

definition do_updateJobStatus :: "env \<Rightarrow> string \<Rightarrow> string \<Rightarrow> extra \<Rightarrow> world \<Rightarrow> world" where
  "do_updateJobStatus env jid status ex w =
     (let d = updateJobStatus (db w) (dateNow env (ticks w)) jid status ex
      in w\<lparr>db := d, ticks := Suc (ticks w),
            trace := trace w @ [Ledger status (getJob d jid)]\<rparr>)"

text \<open>\<^verbatim>\<open>if (notify) await notify(msg)\<close>\<close>

definition do_notify :: "observer \<Rightarrow> string \<Rightarrow> world \<Rightarrow> (thrown + unit) \<times> world" where
  "do_notify notify msg w =
     (case notify of
        None \<Rightarrow> (Inr (), w)
      | Some f \<Rightarrow>
          (case f msg of
             Some e \<Rightarrow> (Inl e, w\<lparr>trace := trace w @ [Notified msg]\<rparr>)
           | None \<Rightarrow> (Inr (), w\<lparr>trace := trace w @ [Notified msg]\<rparr>)))"

text \<open>What the other requests leave of the database: their writes to the OAuth tables.\<close>

definition meanwhile :: "env \<Rightarrow> nat \<Rightarrow> database \<Rightarrow> database" where
  "meanwhile env n d =
     d\<lparr>oauth_tokens := oauth_tokens (concurrent env n d),
       oauth_states := oauth_states (concurrent env n d)\<rparr>"

text \<open>
  An awaited collaborator call; \<open>logged\<close> turns the returned value into what the trace
  keeps of it.
\<close>

definition do_call ::
  "env \<Rightarrow> collaborator \<Rightarrow> ('a \<Rightarrow> string option) \<Rightarrow> thrown + 'a \<Rightarrow> world \<Rightarrow>
   (thrown + 'a) \<times> world" where
  "do_call env c logged outcome w =
     (outcome,
      w\<lparr>db := meanwhile env (ticks w) (db w),
        trace := trace w @
          [Called c (case outcome of Inl e \<Rightarrow> Inl e | Inr v \<Rightarrow> Inr (logged v))]\<rparr>)"

text \<open>The authorization check, which reads the owner's credential record.\<close>

definition do_getAuthorizedClient ::
  "env \<Rightarrow> string \<Rightarrow> string \<Rightarrow> world \<Rightarrow> oauth2_client option \<times> world" where
  "do_getAuthorizedClient env telegramUserId baseUrl w =
     (getAuthorizedClient (GOOGLE_CLIENT_ID env) (GOOGLE_CLIENT_SECRET env) (db w)
        telegramUserId baseUrl,
      w\<lparr>trace := trace w @ [CredentialRead (getToken (db w) telegramUserId)]\<rparr>)"

text \<open>Sequencing inside the \<^verbatim>\<open>try\<close> block: a throw skips what follows.\<close>

definition and_then ::
  "(world \<Rightarrow> (thrown + 'a) \<times> world) \<Rightarrow> ('a \<Rightarrow> world \<Rightarrow> (thrown + 'b) \<times> world) \<Rightarrow>
   world \<Rightarrow> (thrown + 'b) \<times> world" where
  "and_then m k w = (case m w of (Inl e, w') \<Rightarrow> (Inl e, w') | (Inr x, w') \<Rightarrow> k x w')"

definition step ::
  "env \<Rightarrow> observer \<Rightarrow> string \<Rightarrow> string \<Rightarrow> (world \<Rightarrow> (thrown + 'a) \<times> world) \<Rightarrow>
   world \<Rightarrow> (thrown + 'a) \<times> world" where
  "step env notify jobId status fn w =
     and_then (do_notify notify status) (\<lambda>_. fn)
       (do_updateJobStatus env jobId status no_extra w)"

definition not_linked :: string where
  "not_linked = ''Google not linked. Use the dashboard to connect your YouTube.''"

definition try_block ::
  "env \<Rightarrow> observer \<Rightarrow> string \<Rightarrow> string \<Rightarrow> string \<Rightarrow> string \<Rightarrow> string \<Rightarrow> world \<Rightarrow>
   (thrown + unit) \<times> world" where
  "try_block env notify jobId jobDir telegramUserId url baseUrl =
     and_then (step env notify jobId ''downloading''
                 (do_call env DownloadVideo Some (downloadVideo env url jobDir))) (\<lambda>sourcePath.
     and_then (step env notify jobId ''processing''
                 (do_call env TrimAndFormat Some (trimAndFormat env sourcePath jobDir)))
       (\<lambda>shortsPath.
     and_then (step env notify jobId ''audio_extract''
                 (do_call env ExtractAudio Some (extractAudio env shortsPath jobDir)))
       (\<lambda>audioPath.
     and_then (step env notify jobId ''transcribing''
                 (do_call env TranscribeToSrt Some (transcribeToSrt env audioPath)))
       (\<lambda>srtPath w.
     case do_getAuthorizedClient env telegramUserId baseUrl w of
       (None, w1) \<Rightarrow> (Inl (Error not_linked), w1)
     | (Some client, w1) \<Rightarrow>
         and_then (step env notify jobId ''uploading''
                     (do_call env UploadVideoWithCaptions (\<lambda>v. v)
                        (uploadVideoWithCaptions env
                           \<lparr>oauth2Client = client, videoPath = shortsPath, srtPath = srtPath,
                            title = ''Shorts clip'', description = ''Generated via bot'',
                            tags = [''shorts'', ''bot'']\<rparr>))) (\<lambda>videoId w'.
         do_notify notify ''completed''
           (do_updateJobStatus env jobId ''completed''
              \<lparr>video_id = videoId, error = None\<rparr> w')) w1))))"

text \<open>
  The whole function. The identifier \<^verbatim>\<open>crypto.randomUUID()\<close> draws is the parameter
  \<open>jobId\<close>. Creating the working directory and \<^verbatim>\<open>createJob\<close> stand outside the
  \<^verbatim>\<open>try\<close>, so their errors leave the function, as does an error the observer throws
  inside the \<^verbatim>\<open>catch\<close> block.
\<close>

definition runCreateShorts ::
  "env \<Rightarrow> observer \<Rightarrow> string \<Rightarrow> string \<Rightarrow> string \<Rightarrow> string \<Rightarrow> world \<Rightarrow>
   (thrown + string) \<times> world" where
  "runCreateShorts env notify jobId telegramUserId url baseUrl w =
     (let jobDir = path_join env (JOBS_DIR env) jobId in
      case mkdirSync env jobDir of
        Some e \<Rightarrow> (Inl e, w)
      | None \<Rightarrow>
          (case do_createJob env jobId telegramUserId url ''queued'' w of
             (Inl e, w0) \<Rightarrow> (Inl e, w0)
           | (Inr _, w0) \<Rightarrow>
               (case try_block env notify jobId jobDir telegramUserId url baseUrl w0 of
                  (Inr _, w1) \<Rightarrow> (Inr jobId, w1)
                | (Inl err, w1) \<Rightarrow>
                    (case do_notify notify (''failed: '' @ error_text err)
                            (do_updateJobStatus env jobId ''failed''
                               \<lparr>video_id = None, error = Some (error_text err)\<rparr> w1) of
                       (Inl e, w2) \<Rightarrow> (Inl e, w2)
                     | (Inr _, w2) \<Rightarrow> (Inr jobId, w2)))))"

text \<open>
  The observer the server hands to the runner (server.js): it sends the status as a chat
  message and discards whatever the delivery throws.
\<close>

definition server_notify ::
  "(string \<Rightarrow> string \<Rightarrow> thrown option) \<Rightarrow> string \<Rightarrow> string \<Rightarrow> thrown option" where
  "server_notify sendMessage telegramUserId status =
     (case sendMessage telegramUserId (''Status: '' @ status) of
        Some _ \<Rightarrow> None
      | None \<Rightarrow> None)"

section \<open>Reading a trace\<close>

fun statuses :: "event list \<Rightarrow> string list" where
  "statuses [] = []"
| "statuses (Ledger s r # evs) = s # statuses evs"
| "statuses (_ # evs) = statuses evs"

fun snapshots :: "event list \<Rightarrow> job option list" where
  "snapshots [] = []"
| "snapshots (Ledger s r # evs) = r # snapshots evs"
| "snapshots (_ # evs) = snapshots evs"

fun notifications :: "event list \<Rightarrow> string list" where
  "notifications [] = []"
| "notifications (Notified m # evs) = m # notifications evs"
| "notifications (_ # evs) = notifications evs"

fun calls :: "event list \<Rightarrow> collaborator list" where
  "calls [] = []"
| "calls (Called c r # evs) = c # calls evs"
| "calls (_ # evs) = calls evs"

definition status_order :: "string list" where
  "status_order = [''queued'', ''downloading'', ''processing'', ''audio_extract'',
                   ''transcribing'', ''uploading'', ''completed'']"

text \<open>The observer, if there is one, returns normally when called with the message.\<close>

definition returns_normally :: "observer \<Rightarrow> string \<Rightarrow> bool" where
  "returns_normally notify msg = (case notify of None \<Rightarrow> True | Some f \<Rightarrow> f msg = None)"

text \<open>What the observer does with a message; no observer counts as returning.\<close>

definition notify_outcome :: "observer \<Rightarrow> string \<Rightarrow> thrown option" where
  "notify_outcome notify msg = (case notify of None \<Rightarrow> None | Some f \<Rightarrow> f msg)"

text \<open>The event a call of the observer leaves in the trace.\<close>

definition notified :: "observer \<Rightarrow> string \<Rightarrow> event list" where
  "notified notify msg = (case notify of None \<Rightarrow> [] | Some f \<Rightarrow> [Notified msg])"

text \<open>
  The data model's invariant on a job row: the result reference is set exactly when the
  status is completed, the error exactly when it is failed, and never both.
\<close>

definition job_invariant :: "job \<Rightarrow> bool" where
  "job_invariant r =
     ((job_video_id r \<noteq> None) = (job_status r = ''completed'') \<and>
      (job_error r \<noteq> None) = (job_status r = ''failed'') \<and>
      (job_video_id r = None \<or> job_error r = None))"

definition row_ok :: "job option \<Rightarrow> bool" where
  "row_ok ro = (case ro of None \<Rightarrow> False | Some r \<Rightarrow> job_invariant r)"

text \<open>
  The database after one stage that ran to the end: the ledger write at clock reading
  \<open>n\<close>, then what the other requests did while the stage's collaborator ran.
\<close>

definition stage_db :: "env \<Rightarrow> string \<Rightarrow> nat \<Rightarrow> string \<Rightarrow> database \<Rightarrow> database" where
  "stage_db env jobId n status d =
     meanwhile env (Suc n) (updateJobStatus d (dateNow env n) jobId status no_extra)"

text \<open>
  The database the authorization check reads in a run that gets there, from the
  database \<open>createJob\<close> left: the four media stages have run to the end.
\<close>

definition check_db :: "env \<Rightarrow> string \<Rightarrow> database \<Rightarrow> database" where
  "check_db env jobId d0 =
     stage_db env jobId (Suc (Suc (Suc (Suc 0)))) ''transcribing''
       (stage_db env jobId (Suc (Suc (Suc 0))) ''audio_extract''
          (stage_db env jobId (Suc (Suc 0)) ''processing''
             (stage_db env jobId (Suc 0) ''downloading'' d0)))"

section \<open>Concrete inputs\<close>

definition empty_db :: database where
  "empty_db = \<lparr>oauth_tokens = [], oauth_states = [], jobs = []\<rparr>"

definition first_tokens :: token_set where
  "first_tokens = \<lparr>access_token = Some ''a1'', refresh_token = Some ''r1'',
     scope = Some ''youtube.upload'', token_type = None, expiry_date = Some 1000\<rparr>"

definition renewed_tokens :: token_set where
  "renewed_tokens = \<lparr>access_token = Some ''a2'', refresh_token = None,
     scope = Some '''', token_type = Some ''MAC'', expiry_date = Some 2000\<rparr>"

text \<open>A database in which the owner \<open>u1\<close> has linked an account.\<close>

definition linked_db :: database where
  "linked_db = upsertToken empty_db ''u1'' first_tokens"

text \<open>Two pending authorizations, the one of \<open>u1\<close> created before the one of \<open>u2\<close>.\<close>

definition pending_a :: database where
  "pending_a =
     \<lparr>oauth_tokens = [],
      oauth_states = [\<lparr>st_state = ''tokA'', st_telegram_user_id = ''u1'', st_created_at = 7\<rparr>],
      jobs = []\<rparr>"

definition pending_ab :: database where
  "pending_ab =
     \<lparr>oauth_tokens = [],
      oauth_states = [\<lparr>st_state = ''tokA'', st_telegram_user_id = ''u1'', st_created_at = 7\<rparr>,
                      \<lparr>st_state = ''tokB'', st_telegram_user_id = ''u2'', st_created_at = 8\<rparr>],
      jobs = []\<rparr>"

text \<open>A job that completed earlier and carries a stale error text.\<close>

definition done_job :: job where
  "done_job = \<lparr>job_id = ''j1'', job_telegram_user_id = ''u1'', job_source_url = ''https://video/x'',
     job_status = ''completed'', job_created_at = 10, job_updated_at = 20,
     job_video_id = Some ''v1'', job_error = Some ''old''\<rparr>"

definition one_job_db :: database where
  "one_job_db = \<lparr>oauth_tokens = [], oauth_states = [], jobs = [done_job]\<rparr>"

text \<open>
  Collaborators that all succeed with no other request in between; the same with a
  download that fails; the same with an upload that returns no identifier; the same
  with the owner linking an account while the download runs.
\<close>

definition demo_env :: env where
  "demo_env =
     \<lparr>JOBS_DIR = ''/jobs'', GOOGLE_CLIENT_ID = ''cid'', GOOGLE_CLIENT_SECRET = ''sec'',
      dateNow = (\<lambda>n. 1000 + int n),
      path_join = (\<lambda>a b. a @ ''/'' @ b),
      mkdirSync = (\<lambda>dir. None),
      concurrent = (\<lambda>n d. d),
      downloadVideo = (\<lambda>url dir. Inr ''src''),
      trimAndFormat = (\<lambda>p dir. Inr ''clip''),
      extractAudio = (\<lambda>p dir. Inr ''aud''),
      transcribeToSrt = (\<lambda>p. Inr ''srt''),
      uploadVideoWithCaptions = (\<lambda>req. Inr (Some ''yt1''))\<rparr>"

definition offline_env :: env where
  "offline_env = demo_env\<lparr>downloadVideo := (\<lambda>url dir. Inl (Error ''network down''))\<rparr>"

definition no_id_env :: env where
  "no_id_env = demo_env\<lparr>uploadVideoWithCaptions := (\<lambda>req. Inr None)\<rparr>"

definition linking_env :: env where
  "linking_env =
     demo_env\<lparr>concurrent :=
       (\<lambda>n d. if n = Suc (Suc 0) then upsertToken d ''u1'' first_tokens else d)\<rparr>"

text \<open>Observers: one that always returns, one that throws on a single message.\<close>

definition quiet :: "string \<Rightarrow> thrown option" where
  "quiet msg = None"

definition throws_on :: "string \<Rightarrow> string \<Rightarrow> thrown option" where
  "throws_on bad msg = (if msg = bad then Some (Error ''chat unavailable'') else None)"

text \<open>The runs the examples below look at: one job for owner \<open>u1\<close>.\<close>

definition demo_run :: "observer \<Rightarrow> database \<Rightarrow> (thrown + string) \<times> world" where
  "demo_run notify d =
     runCreateShorts demo_env notify ''job-1'' ''u1'' ''https://video/x'' ''http://h''
       (start_world d)"

definition offline_run :: "observer \<Rightarrow> database \<Rightarrow> (thrown + string) \<times> world" where
  "offline_run notify d =
     runCreateShorts offline_env notify ''job-1'' ''u1'' ''https://video/x'' ''http://h''
       (start_world d)"

definition linking_run :: "observer \<Rightarrow> database \<Rightarrow> (thrown + string) \<times> world" where
  "linking_run notify d =
     runCreateShorts linking_env notify ''job-1'' ''u1'' ''https://video/x'' ''http://h''
       (start_world d)"

definition no_id_run :: "observer \<Rightarrow> database \<Rightarrow> (thrown + string) \<times> world" where
  "no_id_run notify d =
     runCreateShorts no_id_env notify ''job-1'' ''u1'' ''https://video/x'' ''http://h''
       (start_world d)"

section \<open>Facts about the storage layer\<close>

lemma find_map_keep:
  assumes "\<And>x. P (f x) = P x"
  shows "find P (map f xs) = map_option f (find P xs)"
  using assms by (induction xs) simp_all

lemma find_None_map_id:
  "find (\<lambda>r. key r = k) xs = None \<Longrightarrow> map (\<lambda>r. if key r = k then f r else r) xs = xs"
  by (induction xs) (simp_all split: if_splits)

lemma find_filter_neq: "find (\<lambda>r. key r = k) (filter (\<lambda>r. key r \<noteq> k) xs) = None"
  by (induction xs) simp_all

lemma find_append:
  "find P (xs @ ys) = (case find P xs of None \<Rightarrow> find P ys | Some x \<Rightarrow> Some x)"
  by (induction xs) simp_all

lemma find_Some_key: "find (\<lambda>r. key r = k) xs = Some r \<Longrightarrow> key r = k"
  by (induction xs) (simp_all split: if_splits)

lemma job_id_set_status [simp]: "job_id (set_status now status ex r) = job_id r"
  by (simp add: set_status_def)

lemma getJob_updateJobStatus:
  "getJob (updateJobStatus d now jid status ex) jid' =
     (if jid' = jid then map_option (set_status now status ex) (getJob d jid) else getJob d jid')"
proof (cases "jid' = jid")
  case True
  have "find (\<lambda>r. job_id r = jid)
          (map (\<lambda>r. if job_id r = jid then set_status now status ex r else r) (jobs d))
        = map_option (\<lambda>r. if job_id r = jid then set_status now status ex r else r)
            (find (\<lambda>r. job_id r = jid) (jobs d))"
    by (rule find_map_keep) simp
  also have "\<dots> = map_option (set_status now status ex) (find (\<lambda>r. job_id r = jid) (jobs d))"
    by (cases "find (\<lambda>r. job_id r = jid) (jobs d)") (auto dest: find_Some_key)
  finally show ?thesis
    using True by (simp add: getJob_def updateJobStatus_def)
next
  case False
  have "find (\<lambda>r. job_id r = jid')
          (map (\<lambda>r. if job_id r = jid then set_status now status ex r else r) (jobs d))
        = map_option (\<lambda>r. if job_id r = jid then set_status now status ex r else r)
            (find (\<lambda>r. job_id r = jid') (jobs d))"
    by (rule find_map_keep) simp
  also have "\<dots> = find (\<lambda>r. job_id r = jid') (jobs d)"
    using False by (cases "find (\<lambda>r. job_id r = jid') (jobs d)") (auto dest: find_Some_key)
  finally show ?thesis
    using False by (simp add: getJob_def updateJobStatus_def)
qed

lemma updateJobStatus_absent:
  "getJob d jid = None \<Longrightarrow> updateJobStatus d now jid status ex = d"
  by (simp add: getJob_def updateJobStatus_def find_None_map_id)


lemma tok_id_merge [simp]: "tok_telegram_user_id (merge_token e r) = tok_telegram_user_id r"
  by (simp add: merge_token_def)

lemma tok_id_excluded [simp]: "tok_telegram_user_id (excluded_row u t) = u"
  by (simp add: excluded_row_def)

lemma getToken_upsertToken:
  "getToken (upsertToken d u t) u =
     Some (case getToken d u of None \<Rightarrow> excluded_row u t
           | Some r \<Rightarrow> merge_token (excluded_row u t) r)"
proof (cases "getToken d u")
  case None
  then show ?thesis
    by (simp add: upsertToken_def getToken_def find_append)
next
  case (Some r)
  have "find (\<lambda>r. tok_telegram_user_id r = u)
          (map (\<lambda>r. if tok_telegram_user_id r = u then merge_token (excluded_row u t) r else r)
             (oauth_tokens d))
        = map_option (\<lambda>r. if tok_telegram_user_id r = u then merge_token (excluded_row u t) r else r)
            (find (\<lambda>r. tok_telegram_user_id r = u) (oauth_tokens d))"
    by (rule find_map_keep) simp
  moreover have "tok_telegram_user_id r = u"
    using Some by (auto simp: getToken_def dest: find_Some_key)
  ultimately show ?thesis
    using Some by (simp add: upsertToken_def getToken_def)
qed

lemma keys_upsertToken:
  "map tok_telegram_user_id (oauth_tokens (upsertToken d u t)) =
     (case getToken d u of None \<Rightarrow> map tok_telegram_user_id (oauth_tokens d) @ [u]
      | Some _ \<Rightarrow> map tok_telegram_user_id (oauth_tokens d))"
proof -
  have "map (tok_telegram_user_id \<circ> (\<lambda>r. if tok_telegram_user_id r = u then merge_token e r else r)) xs
        = map tok_telegram_user_id xs" for e xs
    by (induction xs) simp_all
  then show ?thesis
    by (simp add: upsertToken_def split: option.splits)
qed

lemma find_None_iff_key: "find (\<lambda>r. key r = k) xs = None \<longleftrightarrow> k \<notin> key ` set xs"
  by (induction xs) auto

lemma distinct_upsertToken:
  assumes "distinct (map tok_telegram_user_id (oauth_tokens d))"
  shows "distinct (map tok_telegram_user_id (oauth_tokens (upsertToken d u t)))"
proof (cases "getToken d u")
  case None
  then have "u \<notin> tok_telegram_user_id ` set (oauth_tokens d)"
    unfolding getToken_def find_None_iff_key .
  with None assms show ?thesis
    by (simp add: keys_upsertToken)
next
  case (Some r)
  with assms show ?thesis
    by (simp add: keys_upsertToken)
qed

text \<open>
  A pairing stays in the table from the \<open>createState\<close> that stored it until it is
  consumed: creating or consuming another token does not touch it.
\<close>

lemma createState_stores:
  assumes "createState d now telegramUserId state = Inr d1"
  shows "find (\<lambda>r. st_state r = state) (oauth_states d1) =
           Some \<lparr>st_state = state, st_telegram_user_id = telegramUserId, st_created_at = now\<rparr>"
  using assms by (auto simp: createState_def find_append split: option.splits)

lemma createState_keeps:
  assumes "createState d now telegramUserId other = Inr d1"
    and "find (\<lambda>r. st_state r = state) (oauth_states d) = Some row"
  shows "find (\<lambda>r. st_state r = state) (oauth_states d1) = Some row"
  using assms by (auto simp: createState_def find_append split: option.splits)

lemma find_filter_other:
  "k' \<noteq> k \<Longrightarrow>
   find (\<lambda>r. key r = k) (filter (\<lambda>r. key r \<noteq> k') xs) = find (\<lambda>r. key r = k) xs"
  by (induction xs) auto

lemma consumeState_keeps:
  assumes "other \<noteq> state"
  shows "find (\<lambda>r. st_state r = state) (oauth_states (snd (consumeState d other))) =
           find (\<lambda>r. st_state r = state) (oauth_states d)"
  using assms by (simp add: consumeState_def Let_def find_filter_other split: option.splits)

section \<open>Facts about the runner\<close>

lemma statuses_append [simp]: "statuses (xs @ ys) = statuses xs @ statuses ys"
  by (induction xs rule: statuses.induct) simp_all

lemma snapshots_append [simp]: "snapshots (xs @ ys) = snapshots xs @ snapshots ys"
  by (induction xs rule: snapshots.induct) simp_all

lemma notifications_append [simp]:
  "notifications (xs @ ys) = notifications xs @ notifications ys"
  by (induction xs rule: notifications.induct) simp_all

lemma calls_append [simp]: "calls (xs @ ys) = calls xs @ calls ys"
  by (induction xs rule: calls.induct) simp_all

lemma statuses_notified [simp]: "statuses (notified notify msg) = []"
  by (simp add: notified_def split: option.splits)

lemma snapshots_notified [simp]: "snapshots (notified notify msg) = []"
  by (simp add: notified_def split: option.splits)

lemma calls_notified [simp]: "calls (notified notify msg) = []"
  by (simp add: notified_def split: option.splits)

lemma notifications_notified [simp]:
  "notifications (notified notify msg) = (if notify = None then [] else [msg])"
  by (simp add: notified_def split: option.splits)

lemma Called_notified [simp]: "Called c r \<notin> set (notified notify msg)"
  by (simp add: notified_def split: option.splits)

lemma CredentialRead_notified [simp]: "CredentialRead t \<notin> set (notified notify msg)"
  by (simp add: notified_def split: option.splits)

lemma COALESCE_None [simp]: "COALESCE a None = a"
  by (simp add: COALESCE_def split: option.splits)

lemma COALESCE_None_left [simp]: "COALESCE None b = b"
  by (simp add: COALESCE_def)

lemma returns_normally_iff: "returns_normally notify msg = (notify_outcome notify msg = None)"
  by (simp add: returns_normally_def notify_outcome_def split: option.splits)

lemma do_notify_eq:
  "do_notify notify msg w =
     (case notify_outcome notify msg of Some e \<Rightarrow> Inl e | None \<Rightarrow> Inr (),
      w\<lparr>trace := trace w @ notified notify msg\<rparr>)"
  by (simp add: do_notify_def notify_outcome_def notified_def split: option.splits)

lemma catch_result:
  "(case (r, w) of (Inl e, w2) \<Rightarrow> (Inl e, w2) | (Inr x, w2) \<Rightarrow> (Inr j, w2)) =
     (case r of Inl e \<Rightarrow> Inl e | Inr x \<Rightarrow> Inr j, w)"
  by (cases r) simp_all

lemma snd_case_sum_same [simp]:
  "snd (case r of Inl e \<Rightarrow> (f e, w) | Inr x \<Rightarrow> (g x, w)) = w"
  by (cases r) simp_all

lemma fst_case_sum_same [simp]:
  "fst (case r of Inl e \<Rightarrow> (f e, w) | Inr x \<Rightarrow> (g x, w)) =
     (case r of Inl e \<Rightarrow> f e | Inr x \<Rightarrow> g x)"
  by (cases r) simp_all

text \<open>One stage on a world given by its fields: the ledger write, the observer, the call.\<close>

lemma step_eval:
  "step env notify jid s (do_call env c logged r) \<lparr>db = D, ticks = K, trace = T\<rparr> =
     (case notify_outcome notify s of
        Some e \<Rightarrow>
          (Inl e,
           \<lparr>db = updateJobStatus D (dateNow env K) jid s no_extra, ticks = Suc K,
            trace = T @ [Ledger s (getJob (updateJobStatus D (dateNow env K) jid s no_extra) jid)]
                      @ notified notify s\<rparr>)
      | None \<Rightarrow>
          (r,
           \<lparr>db = stage_db env jid K s D, ticks = Suc K,
            trace = T @ [Ledger s (getJob (updateJobStatus D (dateNow env K) jid s no_extra) jid)]
                      @ notified notify s
                      @ [Called c (case r of Inl e \<Rightarrow> Inl e | Inr v \<Rightarrow> Inr (logged v))]\<rparr>))"
  by (simp add: step_def and_then_def do_notify_eq do_call_def do_updateJobStatus_def Let_def
      stage_db_def split: option.splits)

lemma getJob_meanwhile [simp]: "getJob (meanwhile env n d) jid = getJob d jid"
  by (simp add: getJob_def meanwhile_def)

lemma getJob_stage_db:
  "getJob (stage_db env jid n status d) jid' =
     (if jid' = jid then map_option (set_status (dateNow env n) status no_extra) (getJob d jid)
      else getJob d jid')"
  by (simp add: stage_db_def getJob_updateJobStatus)

lemmas run_eval = runCreateShorts_def try_block_def step_eval and_then_def do_notify_eq
  do_updateJobStatus_def do_createJob_def do_getAuthorizedClient_def getAuthorizedClient_def
  start_world_def catch_result check_db_def Let_def

lemma getJob_created:
  assumes "createJob d now jid u url status = Inr d0"
  shows "getJob d0 jid =
           Some \<lparr>job_id = jid, job_telegram_user_id = u, job_source_url = url,
                 job_status = status, job_created_at = now, job_updated_at = now,
                 job_video_id = None, job_error = None\<rparr>"
  using assms by (auto simp: createJob_def getJob_def find_append split: option.splits)

lemma oauth_tokens_updateJobStatus [simp]:
  "oauth_tokens (updateJobStatus d now jid status ex) = oauth_tokens d"
  by (simp add: updateJobStatus_def)

lemma getToken_updateJobStatus [simp]:
  "getToken (updateJobStatus d now jid status ex) u = getToken d u"
  by (simp add: getToken_def)

lemma getAuthorizedClient_None_iff:
  "getAuthorizedClient ci cs d u b = None \<longleftrightarrow> getToken d u = None"
  by (simp add: getAuthorizedClient_def split: option.splits)

lemma server_notify_returns [simp]: "server_notify sendMessage telegramUserId status = None"
  by (simp add: server_notify_def split: option.splits)

text \<open>
  The ways through the \<^verbatim>\<open>try\<close> block, in the order the code meets them: at each stage the
  observer may throw, then the collaborator may throw; before the upload stage the
  authorization may be missing; last, the observer may throw on the final message.
\<close>

lemma path_cases [case_names notify1 call1 notify2 call2 notify3 call3 notify4 call4
    unlinked notify5 call5 notify6 success]:
  fixes n :: "string \<Rightarrow> 'e option"
    and dl :: "'e + 'a" and tf :: "'a \<Rightarrow> 'e + 'a" and ea :: "'a \<Rightarrow> 'e + 'a"
    and ts :: "'a \<Rightarrow> 'e + 'a" and auth :: "'t option"
    and up :: "'a \<Rightarrow> 'a \<Rightarrow> 't \<Rightarrow> 'e + 'v"
  obtains
    (notify1) e where "n ''downloading'' = Some e"
  | (call1) e where "n ''downloading'' = None" "dl = Inl e"
  | (notify2) p1 e where "n ''downloading'' = None" "dl = Inr p1" "n ''processing'' = Some e"
  | (call2) p1 e where "n ''downloading'' = None" "dl = Inr p1" "n ''processing'' = None"
      "tf p1 = Inl e"
  | (notify3) p1 p2 e where "n ''downloading'' = None" "dl = Inr p1" "n ''processing'' = None"
      "tf p1 = Inr p2" "n ''audio_extract'' = Some e"
  | (call3) p1 p2 e where "n ''downloading'' = None" "dl = Inr p1" "n ''processing'' = None"
      "tf p1 = Inr p2" "n ''audio_extract'' = None" "ea p2 = Inl e"
  | (notify4) p1 p2 p3 e where "n ''downloading'' = None" "dl = Inr p1"
      "n ''processing'' = None" "tf p1 = Inr p2" "n ''audio_extract'' = None" "ea p2 = Inr p3"
      "n ''transcribing'' = Some e"
  | (call4) p1 p2 p3 e where "n ''downloading'' = None" "dl = Inr p1"
      "n ''processing'' = None" "tf p1 = Inr p2" "n ''audio_extract'' = None" "ea p2 = Inr p3"
      "n ''transcribing'' = None" "ts p3 = Inl e"
  | (unlinked) p1 p2 p3 p4 where "n ''downloading'' = None" "dl = Inr p1"
      "n ''processing'' = None" "tf p1 = Inr p2" "n ''audio_extract'' = None" "ea p2 = Inr p3"
      "n ''transcribing'' = None" "ts p3 = Inr p4" "auth = None"
  | (notify5) p1 p2 p3 p4 tok e where "n ''downloading'' = None" "dl = Inr p1"
      "n ''processing'' = None" "tf p1 = Inr p2" "n ''audio_extract'' = None" "ea p2 = Inr p3"
      "n ''transcribing'' = None" "ts p3 = Inr p4" "auth = Some tok"
      "n ''uploading'' = Some e"
  | (call5) p1 p2 p3 p4 tok e where "n ''downloading'' = None" "dl = Inr p1"
      "n ''processing'' = None" "tf p1 = Inr p2" "n ''audio_extract'' = None" "ea p2 = Inr p3"
      "n ''transcribing'' = None" "ts p3 = Inr p4" "auth = Some tok"
      "n ''uploading'' = None" "up p2 p4 tok = Inl e"
  | (notify6) p1 p2 p3 p4 tok vid e where "n ''downloading'' = None" "dl = Inr p1"
      "n ''processing'' = None" "tf p1 = Inr p2" "n ''audio_extract'' = None" "ea p2 = Inr p3"
      "n ''transcribing'' = None" "ts p3 = Inr p4" "auth = Some tok"
      "n ''uploading'' = None" "up p2 p4 tok = Inr vid" "n ''completed'' = Some e"
  | (success) p1 p2 p3 p4 tok vid where "n ''downloading'' = None" "dl = Inr p1"
      "n ''processing'' = None" "tf p1 = Inr p2" "n ''audio_extract'' = None" "ea p2 = Inr p3"
      "n ''transcribing'' = None" "ts p3 = Inr p4" "auth = Some tok"
      "n ''uploading'' = None" "up p2 p4 tok = Inr vid" "n ''completed'' = None"
proof (cases "n ''downloading''")
  case Some
  then show ?thesis by (rule notify1)
next
  case n1: None
  show ?thesis
  proof (cases dl)
    case Inl
    with n1 show ?thesis by (rule call1)
  next
    case r1: (Inr p1)
    show ?thesis
    proof (cases "n ''processing''")
      case Some
      with n1 r1 show ?thesis by (rule notify2)
    next
      case n2: None
      show ?thesis
      proof (cases "tf p1")
        case Inl
        with n1 r1 n2 show ?thesis by (rule call2)
      next
        case r2: (Inr p2)
        show ?thesis
        proof (cases "n ''audio_extract''")
          case Some
          with n1 r1 n2 r2 show ?thesis by (rule notify3)
        next
          case n3: None
          show ?thesis
          proof (cases "ea p2")
            case Inl
            with n1 r1 n2 r2 n3 show ?thesis by (rule call3)
          next
            case r3: (Inr p3)
            show ?thesis
            proof (cases "n ''transcribing''")
              case Some
              with n1 r1 n2 r2 n3 r3 show ?thesis by (rule notify4)
            next
              case n4: None
              show ?thesis
              proof (cases "ts p3")
                case Inl
                with n1 r1 n2 r2 n3 r3 n4 show ?thesis by (rule call4)
              next
                case r4: (Inr p4)
                show ?thesis
                proof (cases auth)
                  case None
                  with n1 r1 n2 r2 n3 r3 n4 r4 show ?thesis by (rule unlinked)
                next
                  case a: (Some tok)
                  show ?thesis
                  proof (cases "n ''uploading''")
                    case Some
                    with n1 r1 n2 r2 n3 r3 n4 r4 a show ?thesis by (rule notify5)
                  next
                    case n5: None
                    show ?thesis
                    proof (cases "up p2 p4 tok")
                      case Inl
                      with n1 r1 n2 r2 n3 r3 n4 r4 a n5 show ?thesis by (rule call5)
                    next
                      case r5: (Inr vid)
                      show ?thesis
                      proof (cases "n ''completed''")
                        case Some
                        with n1 r1 n2 r2 n3 r3 n4 r4 a n5 r5 show ?thesis by (rule notify6)
                      next
                        case None
                        with n1 r1 n2 r2 n3 r3 n4 r4 a n5 r5 show ?thesis by (rule success)
                      qed
                    qed
                  qed
                qed
              qed
            qed
          qed
        qed
      qed
    qed
  qed
qed

text \<open>
  The same case distinction, set up for one run of the runner after the job's row was
  created; the authorization case is the credential record read at the check.
\<close>

lemmas run_paths =
  path_cases [where n = "notify_outcome notify"
    and dl = "downloadVideo env url (path_join env (JOBS_DIR env) jobId)"
    and tf = "\<lambda>p. trimAndFormat env p (path_join env (JOBS_DIR env) jobId)"
    and ea = "\<lambda>p. extractAudio env p (path_join env (JOBS_DIR env) jobId)"
    and ts = "\<lambda>p. transcribeToSrt env p"
    and auth = "getToken (check_db env jobId d0) telegramUserId"
    and up = "\<lambda>p2 p4 token. uploadVideoWithCaptions env
                \<lparr>oauth2Client =
                   client_with (GOOGLE_CLIENT_ID env) (GOOGLE_CLIENT_SECRET env)
                     (buildOAuthRedirectUrl baseUrl) token,
                 videoPath = p2, srtPath = p4,
                 title = ''Shorts clip'', description = ''Generated via bot'',
                 tags = [''shorts'', ''bot'']\<rparr>"
    for notify env url jobId d0 telegramUserId baseUrl]

text \<open>The two ways a run ends before the job has a row.\<close>

lemma run_no_directory:
  assumes "mkdirSync env (path_join env (JOBS_DIR env) jobId) = Some e"
  shows "runCreateShorts env notify jobId telegramUserId url baseUrl (start_world d) =
           (Inl e, \<lparr>db = d, ticks = 0, trace = []\<rparr>)"
  using assms by (simp add: runCreateShorts_def start_world_def)

lemma run_not_created:
  assumes "mkdirSync env (path_join env (JOBS_DIR env) jobId) = None"
    and "createJob d (dateNow env 0) jobId telegramUserId url ''queued'' = Inl e"
  shows "runCreateShorts env notify jobId telegramUserId url baseUrl (start_world d) =
           (Inl e, \<lparr>db = d, ticks = Suc 0, trace = []\<rparr>)"
  using assms by (simp add: runCreateShorts_def do_createJob_def start_world_def)

text \<open>A run is in one of three situations when the \<^verbatim>\<open>try\<close> block starts.\<close>

lemma start_cases [case_names no_directory not_created created]:
  obtains
    (no_directory) e where "mkdirSync env (path_join env (JOBS_DIR env) jobId) = Some e"
  | (not_created) e where "mkdirSync env (path_join env (JOBS_DIR env) jobId) = None"
      "createJob d (dateNow env 0) jobId telegramUserId url ''queued'' = Inl e"
  | (created) d0 where "mkdirSync env (path_join env (JOBS_DIR env) jobId) = None"
      "createJob d (dateNow env 0) jobId telegramUserId url ''queued'' = Inr d0"
proof (cases "mkdirSync env (path_join env (JOBS_DIR env) jobId)")
  case (Some e)
  then show ?thesis by (rule no_directory)
next
  case None
  then show ?thesis
    by (cases "createJob d (dateNow env 0) jobId telegramUserId url ''queued''")
      (auto intro: not_created created)
qed

lemmas row_eval = getJob_updateJobStatus getJob_stage_db set_status_def no_extra_def

text \<open>Unfolding the concrete inputs.\<close>

lemmas demo_eval = demo_run_def offline_run_def no_id_run_def linking_run_def demo_env_def offline_env_def
  no_id_env_def linking_env_def linked_db_def
  empty_db_def first_tokens_def upsertToken_def getToken_def excluded_row_def createJob_def
  getJob_def updateJobStatus_def set_status_def COALESCE_def no_extra_def stage_db_def
  meanwhile_def client_with_def buildOAuthRedirectUrl_def notify_outcome_def
  throws_on_def quiet_def or_null_def or_null_num_def or_default_def
  Error_def error_text_def not_linked_def find_append

text \<open>
  The credential record in the trace is the one the database holds at the authorization
  check, after the four media stages and whatever other requests did meanwhile.
\<close>

lemma credential_read_at_check:
  assumes "mkdirSync env (path_join env (JOBS_DIR env) jobId) = None"
    and "createJob d (dateNow env 0) jobId telegramUserId url ''queued'' = Inr d0"
  shows "CredentialRead t \<in>
           set (trace (snd (runCreateShorts env notify jobId telegramUserId url baseUrl
                  (start_world d)))) \<longrightarrow>
         t = getToken (check_db env jobId d0) telegramUserId"
  by (rule run_paths [where notify = notify and env = env and url = url and jobId = jobId
        and ?d0.0 = d0 and telegramUserId = telegramUserId and baseUrl = baseUrl])
    (auto simp add: run_eval assms)

section \<open>Claims about the storage layer\<close>

text \<open>
  C2. For a stored job, one call of \<open>updateJobStatus\<close> leaves the row with the new
  status and with \<open>updated_at\<close> set to the time of the call; the stored result
  reference (\<open>video_id\<close>) stays as it was when the call supplies none and is replaced
  when it supplies one; the stored error becomes exactly the supplied one, absent when
  none is supplied. The other columns keep their values.
\<close>

theorem updateJobStatus_sticky_result_last_error:
  assumes "getJob d jid = Some r"
  shows "getJob (updateJobStatus d now jid status ex) jid =
           Some (r\<lparr>job_status := status,
                   job_updated_at := now,
                   job_video_id := (case video_id ex of None \<Rightarrow> job_video_id r
                                    | Some v \<Rightarrow> Some v),
                   job_error := error ex\<rparr>)"
  using assms by (simp add: getJob_updateJobStatus set_status_def COALESCE_def)

theorem updateJobStatus_sticky_result_last_error_witness:
  "getJob one_job_db ''j1'' = Some done_job \<and>
   getJob (updateJobStatus one_job_db 30 ''j1'' ''downloading'' no_extra) ''j1'' =
     Some \<lparr>job_id = ''j1'', job_telegram_user_id = ''u1'', job_source_url = ''https://video/x'',
           job_status = ''downloading'', job_created_at = 10, job_updated_at = 30,
           job_video_id = Some ''v1'', job_error = None\<rparr>"
proof -
  have stored: "getJob one_job_db ''j1'' = Some done_job"
    by (simp add: getJob_def one_job_db_def done_job_def)
  show ?thesis
    using stored
      updateJobStatus_sticky_result_last_error [OF stored, of 30 "''downloading''" no_extra]
    by (simp add: done_job_def no_extra_def)
qed

text \<open>
  C3. Whenever the table of pending authorizations holds a pairing for a state token, as
  it does from the \<open>createState\<close> that stored it until the token is consumed, the first
  \<open>consumeState\<close> returns that pairing, and with it the owner paired with the token. It
  removes the rows with this token and nothing else: every other pending authorization
  and the other tables stay as they are. A second \<open>consumeState\<close> with the same token
  returns null and changes nothing.
\<close>

theorem consumeState_single_use:
  assumes "find (\<lambda>r. st_state r = state) (oauth_states d) = Some row"
  shows "consumeState d state =
           (Some row, d\<lparr>oauth_states := filter (\<lambda>r. st_state r \<noteq> state) (oauth_states d)\<rparr>) \<and>
         find (\<lambda>r. st_state r = state) (oauth_states (snd (consumeState d state))) = None \<and>
         consumeState (snd (consumeState d state)) state = (None, snd (consumeState d state))"
proof -
  have first: "consumeState d state =
      (Some row, d\<lparr>oauth_states := filter (\<lambda>r. st_state r \<noteq> state) (oauth_states d)\<rparr>)"
    using assms by (simp add: consumeState_def)
  have gone: "find (\<lambda>r. st_state r = state)
      (oauth_states (d\<lparr>oauth_states := filter (\<lambda>r. st_state r \<noteq> state) (oauth_states d)\<rparr>)) = None"
    by (simp add: find_filter_neq)
  have second: "consumeState
      (d\<lparr>oauth_states := filter (\<lambda>r. st_state r \<noteq> state) (oauth_states d)\<rparr>) state =
      (None, d\<lparr>oauth_states := filter (\<lambda>r. st_state r \<noteq> state) (oauth_states d)\<rparr>)"
    using gone by (simp add: consumeState_def)
  show ?thesis
    using first gone second by simp
qed

theorem consumeState_single_use_witness:
  "createState empty_db 7 ''u1'' ''tokA'' = Inr pending_a \<and>
   createState pending_a 8 ''u2'' ''tokB'' = Inr pending_ab \<and>
   find (\<lambda>r. st_state r = ''tokA'') (oauth_states pending_ab) =
     Some \<lparr>st_state = ''tokA'', st_telegram_user_id = ''u1'', st_created_at = 7\<rparr> \<and>
   consumeState pending_ab ''tokA'' =
     (Some \<lparr>st_state = ''tokA'', st_telegram_user_id = ''u1'', st_created_at = 7\<rparr>,
      \<lparr>oauth_tokens = [],
       oauth_states = [\<lparr>st_state = ''tokB'', st_telegram_user_id = ''u2'', st_created_at = 8\<rparr>],
       jobs = []\<rparr>) \<and>
   fst (consumeState (snd (consumeState pending_ab ''tokA'')) ''tokA'') = None"
proof -
  have made: "createState empty_db 7 ''u1'' ''tokA'' = Inr pending_a"
    "createState pending_a 8 ''u2'' ''tokB'' = Inr pending_ab"
    by (simp_all add: createState_def empty_db_def pending_a_def pending_ab_def)
  have stored: "find (\<lambda>r. st_state r = ''tokA'') (oauth_states pending_ab) =
     Some \<lparr>st_state = ''tokA'', st_telegram_user_id = ''u1'', st_created_at = 7\<rparr>"
    by (simp add: pending_ab_def)
  have rest: "pending_ab\<lparr>oauth_states :=
        filter (\<lambda>r. st_state r \<noteq> ''tokA'') (oauth_states pending_ab)\<rparr> =
      \<lparr>oauth_tokens = [],
       oauth_states = [\<lparr>st_state = ''tokB'', st_telegram_user_id = ''u2'', st_created_at = 8\<rparr>],
       jobs = []\<rparr>"
    by (simp add: pending_ab_def)
  note single_use = consumeState_single_use [OF stored]
  from single_use have first: "consumeState pending_ab ''tokA'' =
      (Some \<lparr>st_state = ''tokA'', st_telegram_user_id = ''u1'', st_created_at = 7\<rparr>,
       pending_ab\<lparr>oauth_states :=
         filter (\<lambda>r. st_state r \<noteq> ''tokA'') (oauth_states pending_ab)\<rparr>)"
    by blast
  from single_use have "consumeState (snd (consumeState pending_ab ''tokA'')) ''tokA'' =
      (None, snd (consumeState pending_ab ''tokA''))"
    by blast
  then have second:
    "fst (consumeState (snd (consumeState pending_ab ''tokA'')) ''tokA'') = None"
    by simp
  show ?thesis
    using made stored first second rest by simp
qed

text \<open>
  C4. Upserting keeps the owner column free of duplicates, so an owner has at most one
  credential record. After two upserts for one owner, the second without a refresh
  token, the owner's record holds: the access token of the second call; the refresh
  token the first call stored, which is the one the first call supplied, or, when it
  supplied none (or an empty one), the one stored before; and the scope, token type and
  expiry of the second call, where an empty or missing scope and a zero or missing
  expiry are stored as NULL and an empty or missing token type as \<open>Bearer\<close>.
\<close>

theorem upsertToken_sticky_refresh_token:
  assumes "distinct (map tok_telegram_user_id (oauth_tokens d))"
    and "refresh_token t2 = None"
  shows "let kept = (case refresh_token t1 of
                       Some s \<Rightarrow>
                         if s = [] then (case getToken d u of None \<Rightarrow> None
                                         | Some r0 \<Rightarrow> tok_refresh_token r0)
                         else Some s
                     | None \<Rightarrow> (case getToken d u of None \<Rightarrow> None
                                 | Some r0 \<Rightarrow> tok_refresh_token r0))
         in distinct (map tok_telegram_user_id
              (oauth_tokens (upsertToken (upsertToken d u t1) u t2))) \<and>
            map_option tok_refresh_token (getToken (upsertToken d u t1) u) = Some kept \<and>
            getToken (upsertToken (upsertToken d u t1) u t2) u =
              Some \<lparr>tok_telegram_user_id = u,
                    tok_access_token = access_token t2,
                    tok_refresh_token = kept,
                    tok_scope = (case scope t2 of None \<Rightarrow> None
                                 | Some s \<Rightarrow> if s = [] then None else Some s),
                    tok_token_type = Some (case token_type t2 of None \<Rightarrow> ''Bearer''
                                           | Some s \<Rightarrow> if s = [] then ''Bearer'' else s),
                    tok_expiry_date = (case expiry_date t2 of None \<Rightarrow> None
                                       | Some n \<Rightarrow> if n = 0 then None else Some n)\<rparr>"
proof -
  have unique: "distinct (map tok_telegram_user_id
      (oauth_tokens (upsertToken (upsertToken d u t1) u t2)))"
    using assms(1) by (simp add: distinct_upsertToken)
  have owner: "tok_telegram_user_id r0 = u" if "getToken d u = Some r0" for r0
    using that by (auto simp: getToken_def dest: find_Some_key)
  have rows: "getToken (upsertToken d u t1) u =
        Some (case getToken d u of None \<Rightarrow> excluded_row u t1
              | Some r \<Rightarrow> merge_token (excluded_row u t1) r)"
    "getToken (upsertToken (upsertToken d u t1) u t2) u =
        Some (merge_token (excluded_row u t2)
               (case getToken d u of None \<Rightarrow> excluded_row u t1
                | Some r \<Rightarrow> merge_token (excluded_row u t1) r))"
    by (simp_all add: getToken_upsertToken)
  show ?thesis
    unfolding Let_def rows
    using unique assms(2) owner
    by (cases "getToken d u"; cases "refresh_token t1"; cases "scope t2"; cases "token_type t2";
        cases "expiry_date t2")
      (simp_all add: merge_token_def excluded_row_def COALESCE_def or_null_def
        or_null_num_def or_default_def)
qed

theorem upsertToken_sticky_refresh_token_witness:
  "distinct (map tok_telegram_user_id (oauth_tokens empty_db)) \<and>
   refresh_token renewed_tokens = None \<and>
   refresh_token first_tokens = Some ''r1'' \<and>
   token_type renewed_tokens = Some ''MAC'' \<and>
   scope renewed_tokens = Some [] \<and>
   map_option tok_refresh_token (getToken (upsertToken empty_db ''u1'' first_tokens) ''u1'') =
     Some (Some ''r1'') \<and>
   getToken (upsertToken (upsertToken empty_db ''u1'' first_tokens) ''u1'' renewed_tokens) ''u1'' =
     Some \<lparr>tok_telegram_user_id = ''u1'', tok_access_token = Some ''a2'',
           tok_refresh_token = Some ''r1'', tok_scope = None,
           tok_token_type = Some ''MAC'', tok_expiry_date = Some 2000\<rparr> \<and>
   distinct (map tok_telegram_user_id
     (oauth_tokens (upsertToken (upsertToken empty_db ''u1'' first_tokens) ''u1'' renewed_tokens)))"
proof -
  have h1: "distinct (map tok_telegram_user_id (oauth_tokens empty_db))"
    by (simp add: empty_db_def)
  have h2: "refresh_token renewed_tokens = None"
    by (simp add: renewed_tokens_def)
  have before: "getToken empty_db ''u1'' = None"
    by (simp add: getToken_def empty_db_def)
  have fields: "refresh_token first_tokens = Some ''r1''"
    "token_type renewed_tokens = Some ''MAC''" "scope renewed_tokens = Some []"
    "access_token renewed_tokens = Some ''a2''" "expiry_date renewed_tokens = Some 2000"
    by (simp_all add: first_tokens_def renewed_tokens_def)
  show ?thesis
    using h1 h2 before fields
      upsertToken_sticky_refresh_token [OF h1 h2, where u = "''u1''" and ?t1.0 = first_tokens]
    by (simp add: Let_def)
qed

text \<open>
  C10. When no row of the job ledger has the given id, \<open>updateJobStatus\<close> returns the
  database it was given: no row is added and none is changed. The update has no error
  outcome at all.
\<close>

theorem updateJobStatus_missing_job_noop:
  assumes "getJob d jid = None"
  shows "updateJobStatus d now jid status ex = d"
  using assms by (rule updateJobStatus_absent)

theorem updateJobStatus_missing_job_noop_witness:
  "getJob one_job_db ''j2'' = None \<and>
   updateJobStatus one_job_db 30 ''j2'' ''failed'' \<lparr>video_id = None, error = Some ''boom''\<rparr> =
     one_job_db"
proof -
  have absent: "getJob one_job_db ''j2'' = None"
    by (simp add: getJob_def one_job_db_def done_job_def)
  show ?thesis
    using absent updateJobStatus_missing_job_noop [OF absent] by simp
qed

section \<open>Claims about the runner\<close>

text \<open>
  C1, as the code has it. \<open>runCreateShorts\<close> does not catch what the observer throws;
  the observer the server passes in catches delivery errors itself. With that observer,
  a delivery that fails at any message changes nothing: the run returns the same value
  and leaves the same world as with a delivery that never fails, and its return value
  and database are those of a run with no observer at all.
\<close>

theorem server_notify_failure_is_swallowed:
  "runCreateShorts env (Some (server_notify sendMessage telegramUserId)) jobId telegramUserId
     url baseUrl (start_world d) =
   runCreateShorts env (Some (server_notify (\<lambda>chat text. None) telegramUserId)) jobId
     telegramUserId url baseUrl (start_world d) \<and>
   fst (runCreateShorts env (Some (server_notify sendMessage telegramUserId)) jobId
          telegramUserId url baseUrl (start_world d)) =
     fst (runCreateShorts env None jobId telegramUserId url baseUrl (start_world d)) \<and>
   db (snd (runCreateShorts env (Some (server_notify sendMessage telegramUserId)) jobId
          telegramUserId url baseUrl (start_world d))) =
     db (snd (runCreateShorts env None jobId telegramUserId url baseUrl (start_world d)))"
proof -
  have same: "server_notify sendMessage telegramUserId =
      server_notify (\<lambda>chat text. None) telegramUserId"
    by (rule ext) simp
  have quiet: "notify_outcome (Some (server_notify sendMessage telegramUserId)) msg = None"
    for msg
    by (simp add: notify_outcome_def)
  have absent: "notify_outcome None msg = None" for msg
    by (simp add: notify_outcome_def)
  have "fst (runCreateShorts env (Some (server_notify sendMessage telegramUserId)) jobId
          telegramUserId url baseUrl (start_world d)) =
        fst (runCreateShorts env None jobId telegramUserId url baseUrl (start_world d)) \<and>
        db (snd (runCreateShorts env (Some (server_notify sendMessage telegramUserId)) jobId
          telegramUserId url baseUrl (start_world d))) =
        db (snd (runCreateShorts env None jobId telegramUserId url baseUrl (start_world d)))"
  proof (cases rule: start_cases [where env = env and jobId = jobId and d = d
      and telegramUserId = telegramUserId and url = url])
    case (no_directory e)
    then show ?thesis by (simp add: run_no_directory)
  next
    case (not_created e)
    then show ?thesis by (simp add: run_not_created)
  next
    case (created d0)
    show ?thesis
      by (rule run_paths [where notify = None and env = env and url = url and jobId = jobId
            and ?d0.0 = d0 and telegramUserId = telegramUserId and baseUrl = baseUrl])
        (simp_all add: run_eval created quiet absent)
  qed
  with same show ?thesis by simp
qed

text \<open>
  C1 as stated fails: an observer that throws at the first stage transition makes the
  job end as failed before any collaborator ran, where the same job with an observer
  that returns ends as completed.
\<close>

theorem observer_error_aborts_job:
  "map_option job_status
     (getJob (db (snd (demo_run (Some (throws_on ''downloading'')) linked_db))) ''job-1'') =
     Some ''failed'' \<and>
   calls (trace (snd (demo_run (Some (throws_on ''downloading'')) linked_db))) = [] \<and>
   map_option job_status (getJob (db (snd (demo_run (Some quiet) linked_db))) ''job-1'') =
     Some ''completed''"
  by (simp add: run_eval demo_eval)

text \<open>
  C7, as the code has it. When the observer returns normally from the message
  \<open>completed\<close>, the statuses a run writes to the job ledger are a prefix of the fixed
  order, or a proper, non-empty prefix of it followed by \<open>failed\<close> and nothing else.
  So no status is written twice or out of order, and nothing is written after
  \<open>completed\<close> or after \<open>failed\<close>.
\<close>

theorem statuses_follow_the_order:
  assumes "returns_normally notify ''completed''"
  shows "let ss = statuses (trace (snd (runCreateShorts env notify jobId telegramUserId url
                    baseUrl (start_world d))))
         in prefix ss status_order \<or>
            (butlast ss \<noteq> [] \<and> last ss = ''failed'' \<and> strict_prefix (butlast ss) status_order)"
proof (cases rule: start_cases [where env = env and jobId = jobId and d = d
      and telegramUserId = telegramUserId and url = url])
  case (no_directory e)
  then show ?thesis by (simp add: run_no_directory)
next
  case (not_created e)
  then show ?thesis by (simp add: run_not_created)
next
  case (created d0)
  have nc: "notify_outcome notify ''completed'' = None"
    using assms by (simp add: returns_normally_iff)
  show ?thesis
    by (rule run_paths [where notify = notify and env = env and url = url and jobId = jobId
          and ?d0.0 = d0 and telegramUserId = telegramUserId and baseUrl = baseUrl])
      (simp_all add: run_eval created nc status_order_def)
qed

theorem statuses_follow_the_order_witness:
  "returns_normally (Some quiet) ''completed'' \<and>
   statuses (trace (snd (offline_run (Some quiet) linked_db))) =
     [''queued'', ''downloading'', ''failed''] \<and>
   (let ss = statuses (trace (snd (offline_run (Some quiet) linked_db)))
    in prefix ss status_order \<or>
       (butlast ss \<noteq> [] \<and> last ss = ''failed'' \<and> strict_prefix (butlast ss) status_order))"
proof -
  have h: "returns_normally (Some quiet) ''completed''"
    by (simp add: returns_normally_def quiet_def)
  have v: "statuses (trace (snd (offline_run (Some quiet) linked_db))) =
     [''queued'', ''downloading'', ''failed'']"
    by (simp add: run_eval demo_eval)
  show ?thesis
    using h v statuses_follow_the_order [OF h, of offline_env "''job-1''" "''u1''"
        "''https://video/x''" "''http://h''" linked_db]
    unfolding offline_run_def by simp
qed

text \<open>
  C7 as stated fails: when the observer throws on \<open>completed\<close>, the run writes
  \<open>failed\<close> after \<open>completed\<close>, so the job leaves a terminal state.
\<close>

theorem failed_written_after_completed:
  "statuses (trace (snd (demo_run (Some (throws_on ''completed'')) linked_db))) =
     [''queued'', ''downloading'', ''processing'', ''audio_extract'', ''transcribing'',
      ''uploading'', ''completed'', ''failed'']"
  by (simp add: run_eval demo_eval)

text \<open>
  C5. When the authorization check of a run reads the owner's credential record and
  finds none in the database as it is at that moment, immediately before the upload
  stage, the run ends with the job's row in status \<open>failed\<close>, its error the text that
  tells the owner to link the account, and the upload collaborator was never called.
  What the database held when the run started does not matter: other requests may have
  linked or not linked the owner while the earlier stages ran.
\<close>

theorem missing_credentials_fail_before_upload:
  assumes "runCreateShorts env notify jobId telegramUserId url baseUrl (start_world d) = (r, w')"
    and "CredentialRead None \<in> set (trace w')"
  shows "(\<exists>row. getJob (db w') jobId = Some row \<and> job_status row = ''failed'' \<and>
            job_error row = Some ''Google not linked. Use the dashboard to connect your YouTube.'') \<and>
         UploadVideoWithCaptions \<notin> set (calls (trace w'))"
proof -
  let ?run = "runCreateShorts env notify jobId telegramUserId url baseUrl (start_world d)"
  have "CredentialRead None \<in> set (trace (snd ?run)) \<longrightarrow>
        (\<exists>row. getJob (db (snd ?run)) jobId = Some row \<and> job_status row = ''failed'' \<and>
            job_error row = Some ''Google not linked. Use the dashboard to connect your YouTube.'') \<and>
        UploadVideoWithCaptions \<notin> set (calls (trace (snd ?run)))"
  proof (cases rule: start_cases [where env = env and jobId = jobId and d = d
      and telegramUserId = telegramUserId and url = url])
    case (no_directory e)
    then show ?thesis by (simp add: run_no_directory)
  next
    case (not_created e)
    then show ?thesis by (simp add: run_not_created)
  next
    case (created d0)
    show ?thesis
      by (rule run_paths [where notify = notify and env = env and url = url and jobId = jobId
            and ?d0.0 = d0 and telegramUserId = telegramUserId and baseUrl = baseUrl])
        (simp_all add: run_eval created row_eval getJob_created [OF created(2)]
          error_text_def Error_def not_linked_def)
  qed
  with assms show ?thesis by simp
qed

theorem missing_credentials_fail_before_upload_witness:
  "CredentialRead None \<in> set (trace (snd (demo_run None empty_db))) \<and>
   (\<exists>row. getJob (db (snd (demo_run None empty_db))) ''job-1'' = Some row \<and>
      job_status row = ''failed'' \<and>
      job_error row = Some ''Google not linked. Use the dashboard to connect your YouTube.'') \<and>
   UploadVideoWithCaptions \<notin> set (calls (trace (snd (demo_run None empty_db))))"
proof -
  have h1: "runCreateShorts demo_env None ''job-1'' ''u1'' ''https://video/x'' ''http://h''
              (start_world empty_db) =
            (fst (demo_run None empty_db), snd (demo_run None empty_db))"
    by (simp add: demo_run_def)
  have h2: "CredentialRead None \<in> set (trace (snd (demo_run None empty_db)))"
    by (simp add: run_eval demo_eval notified_def)
  show ?thesis
    using h2 missing_credentials_fail_before_upload [OF h1 h2] by simp
qed

text \<open>
  C6, as the code has it. In every run no collaborator is called twice. When a
  collaborator threw, the job's row ends in status \<open>failed\<close> with the error text
  \<^verbatim>\<open>String(err?.message || err)\<close>; the observer, if there is one, was called with exactly
  one message that starts with \<open>failed: \<close>, and it carries that text; and the run returns
  the job's id, provided the observer returns normally from that message.
\<close>

theorem collaborator_failure_is_recorded:
  assumes "runCreateShorts env notify jobId telegramUserId url baseUrl (start_world d) = (r, w')"
  shows "distinct (calls (trace w')) \<and>
         (\<forall>c e. Called c (Inl e) \<in> set (trace w') \<longrightarrow>
            (\<exists>row. getJob (db w') jobId = Some row \<and> job_status row = ''failed'' \<and>
               job_error row = Some (error_text e)) \<and>
            filter (prefix ''failed: '') (notifications (trace w')) =
              (if notify = None then [] else [''failed: '' @ error_text e]) \<and>
            (returns_normally notify (''failed: '' @ error_text e) \<longrightarrow> r = Inr jobId))"
proof -
  let ?run = "runCreateShorts env notify jobId telegramUserId url baseUrl (start_world d)"
  have "distinct (calls (trace (snd ?run))) \<and>
         (\<forall>c e. Called c (Inl e) \<in> set (trace (snd ?run)) \<longrightarrow>
            (\<exists>row. getJob (db (snd ?run)) jobId = Some row \<and> job_status row = ''failed'' \<and>
               job_error row = Some (error_text e)) \<and>
            filter (prefix ''failed: '') (notifications (trace (snd ?run))) =
              (if notify = None then [] else [''failed: '' @ error_text e]) \<and>
            (returns_normally notify (''failed: '' @ error_text e) \<longrightarrow> fst ?run = Inr jobId))"
  proof (cases rule: start_cases [where env = env and jobId = jobId and d = d
      and telegramUserId = telegramUserId and url = url])
    case (no_directory e)
    then show ?thesis by (simp add: run_no_directory)
  next
    case (not_created e)
    then show ?thesis by (simp add: run_not_created)
  next
    case (created d0)
    show ?thesis
      by (rule run_paths [where notify = notify and env = env and url = url and jobId = jobId
            and ?d0.0 = d0 and telegramUserId = telegramUserId and baseUrl = baseUrl])
        (simp_all add: run_eval created row_eval getJob_created [OF created(2)]
          returns_normally_iff)
  qed
  with assms show ?thesis by simp
qed

theorem collaborator_failure_is_recorded_witness:
  "Called DownloadVideo (Inl (Error ''network down'')) \<in>
     set (trace (snd (offline_run (Some quiet) linked_db))) \<and>
   returns_normally (Some quiet) (''failed: '' @ error_text (Error ''network down'')) \<and>
   distinct (calls (trace (snd (offline_run (Some quiet) linked_db)))) \<and>
   (\<exists>row. getJob (db (snd (offline_run (Some quiet) linked_db))) ''job-1'' = Some row \<and>
      job_status row = ''failed'' \<and> job_error row = Some ''network down'') \<and>
   filter (prefix ''failed: '') (notifications (trace (snd (offline_run (Some quiet) linked_db)))) =
     [''failed: network down''] \<and>
   fst (offline_run (Some quiet) linked_db) = Inr ''job-1''"
proof -
  have h1: "runCreateShorts offline_env (Some quiet) ''job-1'' ''u1'' ''https://video/x''
              ''http://h'' (start_world linked_db) =
            (fst (offline_run (Some quiet) linked_db), snd (offline_run (Some quiet) linked_db))"
    by (simp add: offline_run_def)
  have h2: "Called DownloadVideo (Inl (Error ''network down'')) \<in>
     set (trace (snd (offline_run (Some quiet) linked_db)))"
    by (simp add: run_eval demo_eval notified_def)
  have h3: "returns_normally (Some quiet) (''failed: '' @ error_text (Error ''network down''))"
    by (simp add: returns_normally_def quiet_def)
  have shown: "error_text (Error ''network down'') = ''network down''"
    by (simp add: error_text_def Error_def)
  have "Called DownloadVideo (Inl (Error ''network down'')) \<in>
          set (trace (snd (offline_run (Some quiet) linked_db))) \<longrightarrow>
        (\<exists>row. getJob (db (snd (offline_run (Some quiet) linked_db))) ''job-1'' = Some row \<and>
           job_status row = ''failed'' \<and>
           job_error row = Some (error_text (Error ''network down''))) \<and>
        filter (prefix ''failed: '')
          (notifications (trace (snd (offline_run (Some quiet) linked_db)))) =
          (if Some quiet = None then []
           else [''failed: '' @ error_text (Error ''network down'')]) \<and>
        (returns_normally (Some quiet) (''failed: '' @ error_text (Error ''network down'')) \<longrightarrow>
           fst (offline_run (Some quiet) linked_db) = Inr ''job-1'')"
    and "distinct (calls (trace (snd (offline_run (Some quiet) linked_db))))"
    using collaborator_failure_is_recorded [OF h1] by blast+
  then show ?thesis
    using h2 h3 shown by simp
qed

text \<open>
  C6 as stated fails: the download collaborator throws, the failure is recorded, and
  then the observer throws on the \<open>failed\<close> message; that error leaves
  \<open>runCreateShorts\<close>.
\<close>

theorem run_throws_after_collaborator_failure:
  "Called DownloadVideo (Inl (Error ''network down'')) \<in>
     set (trace (snd (offline_run (Some (throws_on ''failed: network down'')) linked_db))) \<and>
   fst (offline_run (Some (throws_on ''failed: network down'')) linked_db) =
     Inl (Error ''chat unavailable'')"
  by (simp add: run_eval demo_eval notified_def)

text \<open>
  C8, as the code has it. For a job whose row the run created, when the observer
  returns normally from the message \<open>completed\<close> and the upload collaborator did not
  return without an identifier: after every write to the job ledger the job's row
  satisfies the invariant (result reference set exactly in status \<open>completed\<close>, error
  set exactly in status \<open>failed\<close>, never both), and so does the row the run leaves.
\<close>

theorem job_invariant_at_every_write:
  assumes "runCreateShorts env notify jobId telegramUserId url baseUrl (start_world d) = (r, w')"
    and "statuses (trace w') \<noteq> []"
    and "returns_normally notify ''completed''"
    and "Called UploadVideoWithCaptions (Inr None) \<notin> set (trace w')"
  shows "list_all row_ok (snapshots (trace w')) \<and> row_ok (getJob (db w') jobId)"
proof -
  let ?run = "runCreateShorts env notify jobId telegramUserId url baseUrl (start_world d)"
  have nc: "notify_outcome notify ''completed'' = None"
    using assms(3) by (simp add: returns_normally_iff)
  have "statuses (trace (snd ?run)) \<noteq> [] \<longrightarrow>
        Called UploadVideoWithCaptions (Inr None) \<notin> set (trace (snd ?run)) \<longrightarrow>
        list_all row_ok (snapshots (trace (snd ?run))) \<and> row_ok (getJob (db (snd ?run)) jobId)"
  proof (cases rule: start_cases [where env = env and jobId = jobId and d = d
      and telegramUserId = telegramUserId and url = url])
    case (no_directory e)
    then show ?thesis by (simp add: run_no_directory)
  next
    case (not_created e)
    then show ?thesis by (simp add: run_not_created)
  next
    case (created d0)
    show ?thesis
      by (rule run_paths [where notify = notify and env = env and url = url and jobId = jobId
            and ?d0.0 = d0 and telegramUserId = telegramUserId and baseUrl = baseUrl])
        (auto simp add: run_eval created nc row_eval getJob_created [OF created(2)]
          row_ok_def job_invariant_def)
  qed
  with assms(1,2,4) show ?thesis by simp
qed

theorem job_invariant_at_every_write_witness:
  "statuses (trace (snd (demo_run (Some quiet) linked_db))) \<noteq> [] \<and>
   returns_normally (Some quiet) ''completed'' \<and>
   Called UploadVideoWithCaptions (Inr None) \<notin> set (trace (snd (demo_run (Some quiet) linked_db))) \<and>
   length (snapshots (trace (snd (demo_run (Some quiet) linked_db)))) = 7 \<and>
   list_all row_ok (snapshots (trace (snd (demo_run (Some quiet) linked_db)))) \<and>
   row_ok (getJob (db (snd (demo_run (Some quiet) linked_db))) ''job-1'')"
proof -
  have h1: "runCreateShorts demo_env (Some quiet) ''job-1'' ''u1'' ''https://video/x''
              ''http://h'' (start_world linked_db) =
            (fst (demo_run (Some quiet) linked_db), snd (demo_run (Some quiet) linked_db))"
    by (simp add: demo_run_def)
  have h2: "statuses (trace (snd (demo_run (Some quiet) linked_db))) \<noteq> []"
    by (simp add: run_eval demo_eval)
  have h3: "returns_normally (Some quiet) ''completed''"
    by (simp add: returns_normally_def quiet_def)
  have h4: "Called UploadVideoWithCaptions (Inr None) \<notin>
              set (trace (snd (demo_run (Some quiet) linked_db)))"
    by (simp add: run_eval demo_eval notified_def)
  have n: "length (snapshots (trace (snd (demo_run (Some quiet) linked_db)))) = 7"
    by (simp add: run_eval demo_eval notified_def)
  show ?thesis
    using h2 h3 h4 n job_invariant_at_every_write [OF h1 h2 h3 h4] by simp
qed

text \<open>
  C8 as stated fails, in two ways. When the observer throws on \<open>completed\<close>, the job's
  row ends in status \<open>failed\<close> with both the result reference and the error set. When
  the upload collaborator returns no identifier, the job's row ends in status
  \<open>completed\<close> with no result reference.
\<close>

theorem job_invariant_broken:
  "getJob (db (snd (demo_run (Some (throws_on ''completed'')) linked_db))) ''job-1'' =
     Some \<lparr>job_id = ''job-1'', job_telegram_user_id = ''u1'', job_source_url = ''https://video/x'',
           job_status = ''failed'', job_created_at = 1000, job_updated_at = 1007,
           job_video_id = Some ''yt1'', job_error = Some ''chat unavailable''\<rparr> \<and>
   getJob (db (snd (no_id_run (Some quiet) linked_db))) ''job-1'' =
     Some \<lparr>job_id = ''job-1'', job_telegram_user_id = ''u1'', job_source_url = ''https://video/x'',
           job_status = ''completed'', job_created_at = 1000, job_updated_at = 1006,
           job_video_id = None, job_error = None\<rparr>"
  by (simp add: run_eval demo_eval)

text \<open>
  C9, as the code has it. When all five collaborators returned, the authorization check
  found a credential record for the owner and the observer returns normally from the
  message \<open>completed\<close>, the run returns the job's id, the job's row ends in status
  \<open>completed\<close> with the result reference equal to what the upload collaborator
  returned (absent when it returned no identifier) and no error, and the observer, if
  there is one, was called with \<open>completed\<close>.
\<close>

theorem all_stages_succeed_completes:
  assumes "runCreateShorts env notify jobId telegramUserId url baseUrl (start_world d) = (r, w')"
    and "CredentialRead (Some token) \<in> set (trace w')"
    and "Called DownloadVideo (Inr (Some source)) \<in> set (trace w')"
    and "Called TrimAndFormat (Inr (Some shorts)) \<in> set (trace w')"
    and "Called ExtractAudio (Inr (Some audio)) \<in> set (trace w')"
    and "Called TranscribeToSrt (Inr (Some subtitles)) \<in> set (trace w')"
    and "Called UploadVideoWithCaptions (Inr videoId) \<in> set (trace w')"
    and "returns_normally notify ''completed''"
  shows "r = Inr jobId \<and>
         (\<exists>row. getJob (db w') jobId = Some row \<and> job_status row = ''completed'' \<and>
            job_video_id row = videoId \<and> job_error row = None) \<and>
         (notify \<noteq> None \<longrightarrow> ''completed'' \<in> set (notifications (trace w')))"
proof -
  let ?run = "runCreateShorts env notify jobId telegramUserId url baseUrl (start_world d)"
  have nc: "notify_outcome notify ''completed'' = None"
    using assms(8) by (simp add: returns_normally_iff)
  have "Called UploadVideoWithCaptions (Inr videoId) \<in> set (trace (snd ?run)) \<longrightarrow>
        fst ?run = Inr jobId \<and>
        (\<exists>row. getJob (db (snd ?run)) jobId = Some row \<and> job_status row = ''completed'' \<and>
            job_video_id row = videoId \<and> job_error row = None) \<and>
        (notify \<noteq> None \<longrightarrow> ''completed'' \<in> set (notifications (trace (snd ?run))))"
  proof (cases rule: start_cases [where env = env and jobId = jobId and d = d
      and telegramUserId = telegramUserId and url = url])
    case (no_directory e)
    then show ?thesis by (simp add: run_no_directory)
  next
    case (not_created e)
    then show ?thesis by (simp add: run_not_created)
  next
    case (created d0)
    show ?thesis
      by (rule run_paths [where notify = notify and env = env and url = url and jobId = jobId
            and ?d0.0 = d0 and telegramUserId = telegramUserId and baseUrl = baseUrl])
        (simp_all add: run_eval created nc row_eval getJob_created [OF created(2)])
  qed
  with assms(1,7) show ?thesis by simp
qed

theorem all_stages_succeed_completes_witness:
  "getToken empty_db ''u1'' = None \<and>
   CredentialRead
     (Some \<lparr>tok_telegram_user_id = ''u1'', tok_access_token = Some ''a1'',
            tok_refresh_token = Some ''r1'', tok_scope = Some ''youtube.upload'',
            tok_token_type = Some ''Bearer'', tok_expiry_date = Some 1000\<rparr>) \<in>
     set (trace (snd (linking_run (Some quiet) empty_db))) \<and>
   Called DownloadVideo (Inr (Some ''src'')) \<in>
     set (trace (snd (linking_run (Some quiet) empty_db))) \<and>
   Called TrimAndFormat (Inr (Some ''clip'')) \<in>
     set (trace (snd (linking_run (Some quiet) empty_db))) \<and>
   Called ExtractAudio (Inr (Some ''aud'')) \<in>
     set (trace (snd (linking_run (Some quiet) empty_db))) \<and>
   Called TranscribeToSrt (Inr (Some ''srt'')) \<in>
     set (trace (snd (linking_run (Some quiet) empty_db))) \<and>
   Called UploadVideoWithCaptions (Inr (Some ''yt1'')) \<in>
     set (trace (snd (linking_run (Some quiet) empty_db))) \<and>
   returns_normally (Some quiet) ''completed'' \<and>
   fst (linking_run (Some quiet) empty_db) = Inr ''job-1'' \<and>
   (\<exists>row. getJob (db (snd (linking_run (Some quiet) empty_db))) ''job-1'' = Some row \<and>
      job_status row = ''completed'' \<and> job_video_id row = Some ''yt1'' \<and> job_error row = None) \<and>
   ''completed'' \<in> set (notifications (trace (snd (linking_run (Some quiet) empty_db))))"
proof -
  have h0: "getToken empty_db ''u1'' = None"
    by (simp add: getToken_def empty_db_def)
  have h1: "runCreateShorts linking_env (Some quiet) ''job-1'' ''u1'' ''https://video/x''
              ''http://h'' (start_world empty_db) =
            (fst (linking_run (Some quiet) empty_db), snd (linking_run (Some quiet) empty_db))"
    by (simp add: linking_run_def)
  have h2: "CredentialRead
     (Some \<lparr>tok_telegram_user_id = ''u1'', tok_access_token = Some ''a1'',
            tok_refresh_token = Some ''r1'', tok_scope = Some ''youtube.upload'',
            tok_token_type = Some ''Bearer'', tok_expiry_date = Some 1000\<rparr>) \<in>
     set (trace (snd (linking_run (Some quiet) empty_db)))"
    and h3: "Called DownloadVideo (Inr (Some ''src'')) \<in>
      set (trace (snd (linking_run (Some quiet) empty_db)))"
    and h4: "Called TrimAndFormat (Inr (Some ''clip'')) \<in>
      set (trace (snd (linking_run (Some quiet) empty_db)))"
    and h5: "Called ExtractAudio (Inr (Some ''aud'')) \<in>
      set (trace (snd (linking_run (Some quiet) empty_db)))"
    and h6: "Called TranscribeToSrt (Inr (Some ''srt'')) \<in>
      set (trace (snd (linking_run (Some quiet) empty_db)))"
    and h7: "Called UploadVideoWithCaptions (Inr (Some ''yt1'')) \<in>
      set (trace (snd (linking_run (Some quiet) empty_db)))"
    by (simp_all add: run_eval demo_eval notified_def)
  have h8: "returns_normally (Some quiet) ''completed''"
    by (simp add: returns_normally_def quiet_def)
  show ?thesis
    using h0 h2 h3 h4 h5 h6 h7 h8 all_stages_succeed_completes [OF h1 h2 h3 h4 h5 h6 h7 h8]
    by simp
qed

text \<open>
  C9 as stated fails: all five collaborators return and the owner has a credential
  record, yet the job ends in status \<open>failed\<close>, because the observer throws on
  \<open>completed\<close>.
\<close>

theorem completed_job_ends_failed:
  "Called DownloadVideo (Inr (Some ''src'')) \<in>
     set (trace (snd (demo_run (Some (throws_on ''completed'')) linked_db))) \<and>
   Called TrimAndFormat (Inr (Some ''clip'')) \<in>
     set (trace (snd (demo_run (Some (throws_on ''completed'')) linked_db))) \<and>
   Called ExtractAudio (Inr (Some ''aud'')) \<in>
     set (trace (snd (demo_run (Some (throws_on ''completed'')) linked_db))) \<and>
   Called TranscribeToSrt (Inr (Some ''srt'')) \<in>
     set (trace (snd (demo_run (Some (throws_on ''completed'')) linked_db))) \<and>
   Called UploadVideoWithCaptions (Inr (Some ''yt1'')) \<in>
     set (trace (snd (demo_run (Some (throws_on ''completed'')) linked_db))) \<and>
   map_option tok_telegram_user_id (getToken linked_db ''u1'') = Some ''u1'' \<and>
   CredentialRead (getToken linked_db ''u1'') \<in>
     set (trace (snd (demo_run (Some (throws_on ''completed'')) linked_db))) \<and>
   map_option job_status
     (getJob (db (snd (demo_run (Some (throws_on ''completed'')) linked_db))) ''job-1'') =
     Some ''failed''"
  by (simp add: run_eval demo_eval notified_def)

end
